theory Spec2Isabelle
  imports Main "HOL-Library.Char_ord" "HOL-Library.List_Lexorder" "HOL-Library.Sublist"
    "HOL-Library.Multiset"
begin

section \<open>Clinic visit records: the data model of lab4.py\<close>

text \<open>
  Python strings are represented by their UTF-8 encoding, as lists of bytes (\<open>string\<close>).
  The characters the program and the csv module treat specially (comma, double quote,
  carriage return, line feed, digits, signs, blanks) are ASCII, equality of strings is
  equality of their encodings, and the lexicographic order of the encodings is the order
  of the code points, which is how Python compares strings.

  The constructors annotate the text fields with \<open>str\<close>, but Python does not check it,
  and \<open>load_from_csv\<close> stores \<open>None\<close> in a text field of a row that is shorter than
  the header. A text field is therefore a \<open>string option\<close>, with \<open>None\<close> for Python's
  \<open>None\<close>. The numeric fields are always built by \<open>int(...)\<close> or are \<open>int\<close> by
  annotation; the date is always a string once the constructor has run.
\<close>

datatype exn =
    KeyError string
  | ValueError string
  | TypeError
  | IndexError
  | csv_Error
  | FileNotFoundError string
  | OSError string

datatype medical_record =
    MedicalRecord
      (id_r: int) (patient_name: "string option") (doctor_name: "string option")
      (reason: "string option") (duration: int) (date: string)
  | EmergencyRecord
      (id_r: int) (patient_name: "string option") (doctor_name: "string option")
      (reason: "string option") (duration: int) (urgency: int) (date: string)

text \<open>\<open>date or datetime.date.today().isoformat()\<close>: \<open>None\<close> and the empty string are falsy.\<close>

definition date_or_today :: "string \<Rightarrow> string option \<Rightarrow> string" where
  "date_or_today today d = (case d of None \<Rightarrow> today | Some s \<Rightarrow> if s = [] then today else s)"

definition MedicalRecord_init ::
  "string \<Rightarrow> int \<Rightarrow> string option \<Rightarrow> string option \<Rightarrow> string option \<Rightarrow> int \<Rightarrow> string option
     \<Rightarrow> medical_record" where
  "MedicalRecord_init today i p d r dur dt = MedicalRecord i p d r dur (date_or_today today dt)"

definition EmergencyRecord_init ::
  "string \<Rightarrow> int \<Rightarrow> string option \<Rightarrow> string option \<Rightarrow> string option \<Rightarrow> int \<Rightarrow> int \<Rightarrow> string option
     \<Rightarrow> medical_record" where
  "EmergencyRecord_init today i p d r dur u dt =
     EmergencyRecord i p d r dur u (date_or_today today dt)"

text \<open>\<open>isinstance(record, EmergencyRecord)\<close> and \<open>getattr(record, 'urgency', 0)\<close>.\<close>

fun isinstance_EmergencyRecord :: "medical_record \<Rightarrow> bool" where
  "isinstance_EmergencyRecord (EmergencyRecord i p d r dur u dt) = True"
| "isinstance_EmergencyRecord (MedicalRecord i p d r dur dt) = False"

fun getattr_urgency :: "medical_record \<Rightarrow> int \<Rightarrow> int" where
  "getattr_urgency (EmergencyRecord i p d r dur u dt) dflt = u"
| "getattr_urgency (MedicalRecord i p d r dur dt) dflt = dflt"

subsection \<open>\<open>str\<close> of an integer and the display of a record\<close>

definition digit_char :: "nat \<Rightarrow> char" where
  "digit_char n = char_of (48 + n)"

fun digits10 :: "nat \<Rightarrow> string" where
  "digits10 n = (if n < 10 then [digit_char n] else digits10 (n div 10) @ [digit_char (n mod 10)])"

declare digits10.simps [simp del]

definition str_int :: "int \<Rightarrow> string" where
  "str_int i = (if i < 0 then CHR ''-'' # digits10 (nat (- i)) else digits10 (nat i))"

text \<open>
  Format specifications \<open>{x:3}\<close> (an integer, right-aligned) and \<open>{s:20}\<close> (a string,
  left-aligned); the width counts code points, that is the bytes that are not UTF-8
  continuation bytes. Formatting \<open>None\<close> with a width raises \<open>TypeError\<close>.
\<close>

definition cp_length :: "string \<Rightarrow> nat" where
  "cp_length s = length (filter (\<lambda>c. \<not> (128 \<le> (of_char c :: nat) \<and> (of_char c :: nat) < 192)) s)"

definition format_int :: "nat \<Rightarrow> int \<Rightarrow> string" where
  "format_int w i = replicate (w - length (str_int i)) CHR '' '' @ str_int i"

definition format_str :: "nat \<Rightarrow> string option \<Rightarrow> exn + string" where
  "format_str w t = (case t of None \<Rightarrow> Inl TypeError
                     | Some s \<Rightarrow> Inr (s @ replicate (w - cp_length s) CHR '' ''))"

definition min_sep :: string where
  "min_sep = [CHR 0x20, CHR 0xD0, CHR 0xBC, CHR 0xD0, CHR 0xB8, CHR 0xD0, CHR 0xBD, CHR 0x20,
              CHR 0x7C, CHR 0x20]"

definition MedicalRecord_str :: "medical_record \<Rightarrow> exn + string" where
  "MedicalRecord_str r =
     (case format_str 20 (patient_name r) of Inl e \<Rightarrow> Inl e | Inr p \<Rightarrow>
       (case format_str 15 (doctor_name r) of Inl e \<Rightarrow> Inl e | Inr d \<Rightarrow>
         (case format_str 20 (reason r) of Inl e \<Rightarrow> Inl e | Inr rs \<Rightarrow>
            Inr (format_int 3 (id_r r) @ '' | '' @ p @ '' | '' @ d @ '' | '' @ rs @ '' | ''
                 @ format_int 4 (duration r) @ min_sep @ date r))))"

text \<open>
  \<open>URGENCY_LEVELS = {1: ..., 2: ..., 3: ...}\<close> with its three Russian labels
  (critical, high, medium), and the default label (unknown) of
  \<open>URGENCY_LEVELS.get(self.urgency, ...)\<close>.
\<close>

definition label_critical :: string where
  "label_critical = [CHR 0xD0, CHR 0xBA, CHR 0xD1, CHR 0x80, CHR 0xD0, CHR 0xB8, CHR 0xD1, CHR 0x82,
     CHR 0xD0, CHR 0xB8, CHR 0xD1, CHR 0x87, CHR 0xD0, CHR 0xB5, CHR 0xD1, CHR 0x81, CHR 0xD0,
     CHR 0xBA, CHR 0xD0, CHR 0xB0, CHR 0xD1, CHR 0x8F]"

definition label_high :: string where
  "label_high = [CHR 0xD0, CHR 0xB2, CHR 0xD1, CHR 0x8B, CHR 0xD1, CHR 0x81, CHR 0xD0, CHR 0xBE,
     CHR 0xD0, CHR 0xBA, CHR 0xD0, CHR 0xB0, CHR 0xD1, CHR 0x8F]"

definition label_medium :: string where
  "label_medium = [CHR 0xD1, CHR 0x81, CHR 0xD1, CHR 0x80, CHR 0xD0, CHR 0xB5, CHR 0xD0, CHR 0xB4,
     CHR 0xD0, CHR 0xBD, CHR 0xD1, CHR 0x8F, CHR 0xD1, CHR 0x8F]"

definition label_unknown :: string where
  "label_unknown = [CHR 0xD0, CHR 0xBD, CHR 0xD0, CHR 0xB5, CHR 0xD0, CHR 0xB8, CHR 0xD0, CHR 0xB7,
     CHR 0xD0, CHR 0xB2, CHR 0xD0, CHR 0xB5, CHR 0xD1, CHR 0x81, CHR 0xD1, CHR 0x82, CHR 0xD0,
     CHR 0xBD, CHR 0xD0, CHR 0xB0, CHR 0xD1, CHR 0x8F]"

definition urgency_sep :: string where
  "urgency_sep = [CHR 0x20, CHR 0x7C, CHR 0x20, CHR 0xD0, CHR 0xA1, CHR 0xD1, CHR 0x80, CHR 0xD0,
     CHR 0xBE, CHR 0xD1, CHR 0x87, CHR 0xD0, CHR 0xBD, CHR 0xD0, CHR 0xBE, CHR 0xD1, CHR 0x81,
     CHR 0xD1, CHR 0x82, CHR 0xD1, CHR 0x8C, CHR 0x3A, CHR 0x20]"

definition URGENCY_LEVELS :: "(int \<times> string) list" where
  "URGENCY_LEVELS = [(1, label_critical), (2, label_high), (3, label_medium)]"

definition urgency_str :: "medical_record \<Rightarrow> string" where
  "urgency_str r = (case map_of URGENCY_LEVELS (urgency r) of Some l \<Rightarrow> l | None \<Rightarrow> label_unknown)"

definition EmergencyRecord_str :: "medical_record \<Rightarrow> exn + string" where
  "EmergencyRecord_str r =
     (case MedicalRecord_str r of Inl e \<Rightarrow> Inl e
      | Inr s \<Rightarrow> Inr (s @ urgency_sep @ urgency_str r))"

text \<open>\<open>str(record)\<close> dispatches on the class of the record.\<close>

definition str_record :: "medical_record \<Rightarrow> exn + string" where
  "str_record r = (if isinstance_EmergencyRecord r then EmergencyRecord_str r else MedicalRecord_str r)"

section \<open>The collection and the world it lives in\<close>

text \<open>
  A \<open>MedicalRecordsCollection\<close> is an object with one attribute, the list \<open>_records\<close>.
  Objects live in a heap, a list indexed by references; creating an object appends to it.
  The world also holds the files (path to text), the events the program caused
  (messages printed, files opened) and the ISO date of the day. \<open>open_error\<close> gives, for
  a path and a mode, the exception with which the operating system refuses to open that
  path in that mode, if it does (no permission, a directory, a missing directory).
\<close>

datatype message =
    Loaded nat string
  | FileNotFound string
  | LoadError exn
  | NoDataToSave
  | Saved nat string
  | SaveError exn

datatype event = Print message | Opened string char

record world =
  heap :: "medical_record list list"
  files :: "string \<rightharpoonup> string"
  open_error :: "string \<Rightarrow> char \<Rightarrow> exn option"
  events :: "event list"
  today :: string

type_synonym ref = nat

definition print :: "message \<Rightarrow> world \<Rightarrow> world" where
  "print m w = w\<lparr>events := events w @ [Print m]\<rparr>"

definition records :: "world \<Rightarrow> ref \<Rightarrow> medical_record list" where
  "records w self = heap w ! self"

definition set_records :: "ref \<Rightarrow> medical_record list \<Rightarrow> world \<Rightarrow> world" where
  "set_records self rs w = w\<lparr>heap := (heap w)[self := rs]\<rparr>"

text \<open>\<open>MedicalRecordsCollection()\<close>: a new object whose \<open>_records\<close> is the empty list.\<close>

definition MedicalRecordsCollection_init :: "world \<Rightarrow> ref \<times> world" where
  "MedicalRecordsCollection_init w = (length (heap w), w\<lparr>heap := heap w @ [[]]\<rparr>)"

definition len :: "world \<Rightarrow> ref \<Rightarrow> nat" where
  "len w self = length (records w self)"

text \<open>
  \<open>self._records[index]\<close>: a list index counts from the end when it is negative, and is
  an \<open>IndexError\<close> outside \<open>-len .. len - 1\<close>.
\<close>

definition getitem :: "world \<Rightarrow> ref \<Rightarrow> int \<Rightarrow> exn + medical_record" where
  "getitem w self index =
     (let n = int (len w self) in
      if 0 \<le> index \<and> index < n then Inr (records w self ! nat index)
      else if - n \<le> index \<and> index < 0 then Inr (records w self ! nat (n + index))
      else Inl IndexError)"

definition add :: "ref \<Rightarrow> medical_record \<Rightarrow> world \<Rightarrow> world" where
  "add self r w = set_records self (records w self @ [r]) w"

text \<open>
  \<open>sorted(xs, key=f)\<close> is a stable sort, so its result is the one list that is ordered
  by the key and keeps equal keys in their order: \<open>sort_key f xs\<close>. Comparing \<open>None\<close>
  with anything raises \<open>TypeError\<close>, and every element of a list of two or more is
  compared at least once.
\<close>

definition sorted_by_text :: "(medical_record \<Rightarrow> string option) \<Rightarrow> medical_record list
    \<Rightarrow> exn + medical_record list" where
  "sorted_by_text f xs =
     (if 2 \<le> length xs \<and> (\<exists>x \<in> set xs. f x = None) then Inl TypeError
      else Inr (sort_key (\<lambda>x. the (f x)) xs))"

definition sort_by_patient_name :: "ref \<Rightarrow> world \<Rightarrow> (exn + ref) \<times> world" where
  "sort_by_patient_name self w =
     (let (sorted_collection, w1) = MedicalRecordsCollection_init w in
      case sorted_by_text patient_name (records w1 self) of
        Inl e \<Rightarrow> (Inl e, w1)
      | Inr rs \<Rightarrow> (Inr sorted_collection, set_records sorted_collection rs w1))"

definition sort_by_duration :: "ref \<Rightarrow> world \<Rightarrow> ref \<times> world" where
  "sort_by_duration self w =
     (let (sorted_collection, w1) = MedicalRecordsCollection_init w in
      (sorted_collection, set_records sorted_collection (sort_key duration (records w1 self)) w1))"

definition filter_by_duration :: "ref \<Rightarrow> int \<Rightarrow> world \<Rightarrow> ref \<times> world" where
  "filter_by_duration self min_duration w =
     (let (filtered_collection, w1) = MedicalRecordsCollection_init w in
      (filtered_collection,
       set_records filtered_collection [r \<leftarrow> records w1 self. duration r > min_duration] w1))"

text \<open>
  The two generators, by the sequence they yield when they are run to the end: the
  \<open>for\<close> loop over \<open>self._records\<close>, with the records yielded so far.
\<close>

fun get_emergency_records_loop :: "medical_record list \<Rightarrow> medical_record list \<Rightarrow> medical_record list" where
  "get_emergency_records_loop [] yielded = yielded"
| "get_emergency_records_loop (record # rest) yielded =
     (if isinstance_EmergencyRecord record then get_emergency_records_loop rest (yielded @ [record])
      else get_emergency_records_loop rest yielded)"

definition get_emergency_records :: "world \<Rightarrow> ref \<Rightarrow> medical_record list" where
  "get_emergency_records w self = get_emergency_records_loop (records w self) []"

fun get_records_by_doctor_loop ::
  "string \<Rightarrow> medical_record list \<Rightarrow> medical_record list \<Rightarrow> medical_record list" where
  "get_records_by_doctor_loop name [] yielded = yielded"
| "get_records_by_doctor_loop name (record # rest) yielded =
     (if doctor_name record = Some name then get_records_by_doctor_loop name rest (yielded @ [record])
      else get_records_by_doctor_loop name rest yielded)"

definition get_records_by_doctor :: "world \<Rightarrow> ref \<Rightarrow> string \<Rightarrow> medical_record list" where
  "get_records_by_doctor w self name = get_records_by_doctor_loop name (records w self) []"


section \<open>Reading and writing integers\<close>

text \<open>
  \<open>int(s)\<close> of a string. A string that is not ASCII is first transformed, code point
  by code point: a code point below 127 is kept, a blank of Unicode becomes a space, a
  decimal digit of any script becomes the ASCII digit of its value, and the first code
  point that is none of these becomes a question mark, which ends the transformation.
  Then blanks (tab, line feed, vertical tab, form feed, carriage return, space) are
  stripped at both ends, one sign may follow, then decimal digits, where single
  underscores may stand between digits. Anything else raises \<open>ValueError\<close>.
  \<open>int(None)\<close> raises \<open>TypeError\<close>.

  The decimal digits are those of Unicode 14, the version of Python 3.11: in every script
  the ten digits are consecutive code points, so the table holds the zero of each script.
\<close>

definition is_ascii :: "char \<Rightarrow> bool" where
  "is_ascii c = ((of_char c :: nat) < 128)"

definition continuation :: "string \<Rightarrow> nat" where
  "continuation bs = foldl (\<lambda>a c. 64 * a + ((of_char c :: nat) - 128)) 0 bs"

fun decode_utf8 :: "string \<Rightarrow> nat list" where
  "decode_utf8 [] = []"
| "decode_utf8 (c # cs) =
     (let b = (of_char c :: nat) in
      if b < 128 then b # decode_utf8 cs
      else if b < 192 then 65533 # decode_utf8 cs
      else if b < 224 then ((b - 192) * 64 + continuation (take 1 cs)) # decode_utf8 (drop 1 cs)
      else if b < 240 then ((b - 224) * 4096 + continuation (take 2 cs)) # decode_utf8 (drop 2 cs)
      else ((b - 240) * 262144 + continuation (take 3 cs)) # decode_utf8 (drop 3 cs))"

definition unicode_spaces :: "nat list" where
  "unicode_spaces = [0x85, 0xA0, 0x1680, 0x2000, 0x2001, 0x2002, 0x2003, 0x2004, 0x2005, 0x2006,
     0x2007, 0x2008, 0x2009, 0x200A, 0x2028, 0x2029, 0x202F, 0x205F, 0x3000]"

definition decimal_zeros :: "nat list" where
  "decimal_zeros = [0x660, 0x6F0, 0x7C0, 0x966, 0x9E6, 0xA66, 0xAE6, 0xB66, 0xBE6, 0xC66, 0xCE6,
     0xD66, 0xDE6, 0xE50, 0xED0, 0xF20, 0x1040, 0x1090, 0x17E0, 0x1810, 0x1946, 0x19D0, 0x1A80,
     0x1A90, 0x1B50, 0x1BB0, 0x1C40, 0x1C50, 0xA620, 0xA8D0, 0xA900, 0xA9D0, 0xA9F0, 0xAA50,
     0xABF0, 0xFF10, 0x104A0, 0x10D30, 0x11066, 0x110F0, 0x11136, 0x111D0, 0x112F0, 0x11450,
     0x114D0, 0x11650, 0x116C0, 0x11730, 0x118E0, 0x11950, 0x11C50, 0x11D50, 0x11DA0, 0x16A60,
     0x16AC0, 0x16B50, 0x1D7CE, 0x1D7D8, 0x1D7E2, 0x1D7EC, 0x1D7F6, 0x1E140, 0x1E2F0, 0x1E950,
     0x1FBF0]"

definition to_decimal :: "nat \<Rightarrow> nat option" where
  "to_decimal ch = map_option (\<lambda>z. ch - z) (find (\<lambda>z. z \<le> ch \<and> ch < z + 10) decimal_zeros)"

fun transform_code_points :: "nat list \<Rightarrow> string" where
  "transform_code_points [] = []"
| "transform_code_points (ch # chs) =
     (if ch < 127 then char_of ch # transform_code_points chs
      else if ch \<in> set unicode_spaces then CHR '' '' # transform_code_points chs
      else (case to_decimal ch of
              None \<Rightarrow> [CHR ''?'']
            | Some d \<Rightarrow> digit_char d # transform_code_points chs))"

definition TransformDecimalAndSpaceToASCII :: "string \<Rightarrow> string" where
  "TransformDecimalAndSpaceToASCII s =
     (if list_all is_ascii s then s else transform_code_points (decode_utf8 s))"

definition is_space :: "char \<Rightarrow> bool" where
  "is_space c = ((of_char c :: nat) \<in> {9, 10, 11, 12, 13, 32})"

definition is_digit :: "char \<Rightarrow> bool" where
  "is_digit c = (48 \<le> (of_char c :: nat) \<and> (of_char c :: nat) \<le> 57)"

definition digit_val :: "char \<Rightarrow> nat" where
  "digit_val c = of_char c - 48"

definition strip :: "string \<Rightarrow> string" where
  "strip s = rev (dropWhile is_space (rev (dropWhile is_space s)))"

fun digits_ok :: "string \<Rightarrow> bool" where
  "digits_ok [] = False"
| "digits_ok [c] = is_digit c"
| "digits_ok (c # d # cs) =
     (is_digit c \<and> (if d = CHR ''_'' then digits_ok cs else digits_ok (d # cs)))"

definition digits_val :: "string \<Rightarrow> nat" where
  "digits_val ds = foldl (\<lambda>a c. 10 * a + digit_val c) 0 (filter (\<lambda>c. c \<noteq> CHR ''_'') ds)"

definition int_str :: "string \<Rightarrow> exn + int" where
  "int_str s =
     (let t = strip (TransformDecimalAndSpaceToASCII s);
          neg = (t \<noteq> [] \<and> hd t = CHR ''-'');
          ds = (if t \<noteq> [] \<and> (hd t = CHR ''-'' \<or> hd t = CHR ''+'') then tl t else t)
      in if digits_ok ds then Inr (if neg then - int (digits_val ds) else int (digits_val ds))
         else Inl (ValueError s))"

definition int_cell :: "string option \<Rightarrow> exn + int" where
  "int_cell v = (case v of None \<Rightarrow> Inl TypeError | Some s \<Rightarrow> int_str s)"

section \<open>The csv module, as the program uses it\<close>

text \<open>
  The program uses \<open>csv.DictWriter\<close> and \<open>csv.DictReader\<close> with the default dialect:
  delimiter comma, quote character double quote, quotes doubled inside a quoted
  field, minimal quoting, line terminator CR LF, no escape character, not strict.
\<close>

definition CR :: char where "CR = CHR 0x0D"
definition LF :: char where "LF = CHR 0x0A"

subsection \<open>Writing\<close>

text \<open>The values of a row: \<open>None\<close> is written as the empty string, an integer by \<open>str\<close>.\<close>

datatype pyval = PNone | PInt int | PStr string

fun text_val :: "string option \<Rightarrow> pyval" where
  "text_val None = PNone"
| "text_val (Some s) = PStr s"

fun field_text :: "pyval \<Rightarrow> string" where
  "field_text PNone = []"
| "field_text (PInt i) = str_int i"
| "field_text (PStr s) = s"

definition needs_quotes :: "string \<Rightarrow> bool" where
  "needs_quotes s = (\<exists>c \<in> set s. c = CHR '','' \<or> c = CHR 0x22 \<or> c = CR \<or> c = LF)"

fun double_quotes :: "string \<Rightarrow> string" where
  "double_quotes [] = []"
| "double_quotes (c # cs) = (if c = CHR 0x22 then c # c # double_quotes cs else c # double_quotes cs)"

definition join_append :: "string \<Rightarrow> string" where
  "join_append s = (if needs_quotes s then CHR 0x22 # double_quotes s @ [CHR 0x22] else s)"

fun join_fields :: "string list \<Rightarrow> string" where
  "join_fields [] = []"
| "join_fields [f] = join_append f"
| "join_fields (f # g # fs) = join_append f @ CHR '','' # join_fields (g # fs)"

text \<open>A record that would be written as nothing, one empty field, is written as two quotes.\<close>

definition writer_writerow :: "pyval list \<Rightarrow> string" where
  "writer_writerow vals =
     (let line = join_fields (map field_text vals)
      in (if vals \<noteq> [] \<and> line = [] then [CHR 0x22, CHR 0x22] else line) @ [CR, LF])"

text \<open>
  \<open>DictWriter.writerow\<close>: the values of the row in the order of the field names, the
  empty string for a name the row does not have.
\<close>

definition dict_to_list :: "string list \<Rightarrow> (string \<times> pyval) list \<Rightarrow> pyval list" where
  "dict_to_list fieldnames rowdict =
     map (\<lambda>key. case map_of rowdict key of Some v \<Rightarrow> v | None \<Rightarrow> PStr []) fieldnames"

definition DictWriter_writerow :: "string list \<Rightarrow> (string \<times> pyval) list \<Rightarrow> string" where
  "DictWriter_writerow fieldnames rowdict = writer_writerow (dict_to_list fieldnames rowdict)"

definition DictWriter_writeheader :: "string list \<Rightarrow> string" where
  "DictWriter_writeheader fieldnames =
     DictWriter_writerow fieldnames (zip fieldnames (map PStr fieldnames))"

subsection \<open>Reading\<close>

text \<open>
  A file opened for reading in text mode without \<open>newline=''\<close> translates CR LF and a
  lone CR to LF; iterating over it gives its lines, each with its LF (the last line may
  have none).
\<close>

fun universal_newlines :: "string \<Rightarrow> string" where
  "universal_newlines [] = []"
| "universal_newlines [c] = [if c = CR then LF else c]"
| "universal_newlines (c # d # cs) =
     (if c = CR then (if d = LF then LF # universal_newlines cs else LF # universal_newlines (d # cs))
      else c # universal_newlines (d # cs))"

fun file_lines :: "string \<Rightarrow> string list" where
  "file_lines [] = []"
| "file_lines (c # cs) =
     (if c = LF then [c] # file_lines cs
      else (case file_lines cs of [] \<Rightarrow> [[c]] | l # ls \<Rightarrow> (c # l) # ls))"

text \<open>
  The reader is the state machine of the csv module: \<open>parse_process_char\<close> is run on
  every character of a line and then on the end of the line; a record is complete when
  the machine is back at the start of a record. The states of the escape character are
  left out, as the dialect has none. \<open>None\<close> is the exception \<open>csv.Error\<close>.
\<close>

datatype parser_state =
  START_RECORD | START_FIELD | IN_FIELD | IN_QUOTED_FIELD | QUOTE_IN_QUOTED_FIELD | EAT_CRNL

datatype input = Char char | EOL

record reader =
  state :: parser_state
  fields_r :: "string list"
  field :: string

definition parse_reset :: reader where
  "parse_reset = \<lparr>state = START_RECORD, fields_r = [], field = []\<rparr>"

definition parse_save_field :: "reader \<Rightarrow> reader" where
  "parse_save_field r = r\<lparr>fields_r := fields_r r @ [field r], field := []\<rparr>"

definition parse_add_char :: "reader \<Rightarrow> char \<Rightarrow> reader" where
  "parse_add_char r c = r\<lparr>field := field r @ [c]\<rparr>"

definition is_newline :: "input \<Rightarrow> bool" where
  "is_newline c = (c = Char LF \<or> c = Char CR)"

definition end_of_field_state :: "input \<Rightarrow> parser_state" where
  "end_of_field_state c = (if c = EOL then START_RECORD else EAT_CRNL)"

definition start_field :: "reader \<Rightarrow> input \<Rightarrow> reader option" where
  "start_field r c =
     (if is_newline c \<or> c = EOL then Some ((parse_save_field r)\<lparr>state := end_of_field_state c\<rparr>)
      else if c = Char (CHR 0x22) then Some (r\<lparr>state := IN_QUOTED_FIELD\<rparr>)
      else if c = Char (CHR '','') then Some (parse_save_field r)
      else (case c of Char ch \<Rightarrow> Some ((parse_add_char r ch)\<lparr>state := IN_FIELD\<rparr>) | EOL \<Rightarrow> None))"

definition parse_process_char :: "reader \<Rightarrow> input \<Rightarrow> reader option" where
  "parse_process_char r c =
     (case state r of
        START_RECORD \<Rightarrow>
          (if c = EOL then Some r
           else if is_newline c then Some (r\<lparr>state := EAT_CRNL\<rparr>)
           else start_field (r\<lparr>state := START_FIELD\<rparr>) c)
      | START_FIELD \<Rightarrow> start_field r c
      | IN_FIELD \<Rightarrow>
          (if is_newline c \<or> c = EOL then Some ((parse_save_field r)\<lparr>state := end_of_field_state c\<rparr>)
           else if c = Char (CHR '','') then Some ((parse_save_field r)\<lparr>state := START_FIELD\<rparr>)
           else (case c of Char ch \<Rightarrow> Some (parse_add_char r ch) | EOL \<Rightarrow> None))
      | IN_QUOTED_FIELD \<Rightarrow>
          (if c = EOL then Some r
           else if c = Char (CHR 0x22) then Some (r\<lparr>state := QUOTE_IN_QUOTED_FIELD\<rparr>)
           else (case c of Char ch \<Rightarrow> Some (parse_add_char r ch) | EOL \<Rightarrow> None))
      | QUOTE_IN_QUOTED_FIELD \<Rightarrow>
          (if c = Char (CHR 0x22) then Some ((parse_add_char r (CHR 0x22))\<lparr>state := IN_QUOTED_FIELD\<rparr>)
           else if c = Char (CHR '','') then Some ((parse_save_field r)\<lparr>state := START_FIELD\<rparr>)
           else if is_newline c \<or> c = EOL
             then Some ((parse_save_field r)\<lparr>state := end_of_field_state c\<rparr>)
           else (case c of Char ch \<Rightarrow> Some ((parse_add_char r ch)\<lparr>state := IN_FIELD\<rparr>) | EOL \<Rightarrow> None))
      | EAT_CRNL \<Rightarrow>
          (if is_newline c then Some r
           else if c = EOL then Some (r\<lparr>state := START_RECORD\<rparr>)
           else None))"

text \<open>
  The rows the reader yields over the lines of a file, and whether it ends with
  \<open>csv.Error\<close> after them. In the first line of the list the characters not yet read
  remain; when none remains the end of the line is processed. At the end of the input
  an unfinished record (a quoted field left open) is completed.
\<close>

fun reader_rows :: "reader \<Rightarrow> string list \<Rightarrow> string list list \<times> exn option" where
  "reader_rows r [] =
     (if field r \<noteq> [] \<or> state r = IN_QUOTED_FIELD then ([fields_r (parse_save_field r)], None)
      else ([], None))"
| "reader_rows r ([] # lines) =
     (case parse_process_char r EOL of
        None \<Rightarrow> ([], Some csv_Error)
      | Some r' \<Rightarrow>
          if state r' = START_RECORD
          then (case reader_rows parse_reset lines of (rows, e) \<Rightarrow> (fields_r r' # rows, e))
          else reader_rows r' lines)"
| "reader_rows r ((c # cs) # lines) =
     (case parse_process_char r (Char c) of
        None \<Rightarrow> ([], Some csv_Error)
      | Some r' \<Rightarrow> reader_rows r' (cs # lines))"

definition csv_reader :: "string \<Rightarrow> string list list \<times> exn option" where
  "csv_reader text = reader_rows parse_reset (file_lines text)"

text \<open>
  \<open>DictReader\<close>: the first row holds the field names; empty rows are skipped; a row is
  the dictionary of the names zipped with the cells, a later name winning over an
  earlier equal one, with \<open>None\<close> for the names a short row has no cell for. (The cells
  a long row has too many are stored under the key \<open>None\<close>, which no string looks up.)
  A dictionary is the list of its bindings, the last one for a key being the valid one.
\<close>

type_synonym row = "(string \<times> string option) list"

definition dict_get :: "row \<Rightarrow> string \<Rightarrow> string option option" where
  "dict_get d key = map_of (rev d) key"

definition DictReader_row :: "string list \<Rightarrow> string list \<Rightarrow> row" where
  "DictReader_row fieldnames cells =
     zip fieldnames (map Some cells) @ map (\<lambda>key. (key, None)) (drop (length cells) fieldnames)"

definition DictReader :: "string list list \<times> exn option \<Rightarrow> row list \<times> exn option" where
  "DictReader rd =
     (case rd of (rows, e) \<Rightarrow>
        (case rows of [] \<Rightarrow> ([], e)
         | fieldnames # rest \<Rightarrow> (map (DictReader_row fieldnames) (filter (\<lambda>cells. cells \<noteq> []) rest), e)))"

section \<open>Loading and saving the collection\<close>

definition bind_exn :: "exn + 'a \<Rightarrow> ('a \<Rightarrow> exn + 'b) \<Rightarrow> exn + 'b" where
  "bind_exn m f = (case m of Inl e \<Rightarrow> Inl e | Inr x \<Rightarrow> f x)"

text \<open>\<open>row[key]\<close> raises \<open>KeyError\<close> for a missing key; \<open>row.get(key)\<close> gives \<open>None\<close> then.\<close>

definition row_getitem :: "row \<Rightarrow> string \<Rightarrow> exn + string option" where
  "row_getitem d key = (case dict_get d key of None \<Rightarrow> Inl (KeyError key) | Some v \<Rightarrow> Inr v)"

definition row_get :: "row \<Rightarrow> string \<Rightarrow> string option" where
  "row_get d key = (case dict_get d key of None \<Rightarrow> None | Some v \<Rightarrow> v)"

text \<open>
  The body of the loop of \<open>load_from_csv\<close>, lines 154 to 177: the three conversions, then
  the constructor of the one or the other class, whose keyword arguments are evaluated
  in the order they are written.
\<close>

definition row_to_record :: "string \<Rightarrow> row \<Rightarrow> exn + medical_record" where
  "row_to_record tod r =
     bind_exn (bind_exn (row_getitem r ''id'') int_cell) (\<lambda>i.
     bind_exn (bind_exn (row_getitem r ''duration'') int_cell) (\<lambda>dur.
     bind_exn (case dict_get r ''urgency'' of None \<Rightarrow> Inr 0 | Some v \<Rightarrow> int_cell v) (\<lambda>u.
     bind_exn (row_getitem r ''patient_name'') (\<lambda>p.
     bind_exn (row_getitem r ''doctor_name'') (\<lambda>d.
     bind_exn (row_getitem r ''reason'') (\<lambda>rs.
       if u > 0 then Inr (EmergencyRecord_init tod i p d rs dur u (row_get r ''date''))
       else Inr (MedicalRecord_init tod i p d rs dur (row_get r ''date''))))))))"

fun load_loop :: "ref \<Rightarrow> row list \<Rightarrow> world \<Rightarrow> world \<times> exn option" where
  "load_loop collection [] w = (w, None)"
| "load_loop collection (r # rows) w =
     (case row_to_record (today w) r of
        Inl e \<Rightarrow> (w, Some e)
      | Inr record \<Rightarrow> load_loop collection rows (add collection record w))"

definition opened :: "string \<Rightarrow> char \<Rightarrow> world \<Rightarrow> world" where
  "opened filename mode w = w\<lparr>events := events w @ [Opened filename mode]\<rparr>"

text \<open>
  \<open>open(filename, 'r', encoding='utf-8')\<close> raises the exception of the operating
  system if there is one, and \<open>FileNotFoundError\<close> if the file does not exist;
  otherwise the text of the file is there to be read.
  \<open>open(filename, 'w', encoding='utf-8', newline='')\<close> raises the exception of the
  operating system if there is one; otherwise the file exists from then on and is empty.
\<close>

definition open_read :: "string \<Rightarrow> world \<Rightarrow> exn + string \<times> world" where
  "open_read filename w =
     (case open_error w filename CHR ''r'' of
        Some e \<Rightarrow> Inl e
      | None \<Rightarrow>
          (case files w filename of
             None \<Rightarrow> Inl (FileNotFoundError filename)
           | Some text \<Rightarrow> Inr (text, opened filename CHR ''r'' w)))"

definition open_write :: "string \<Rightarrow> world \<Rightarrow> exn + world" where
  "open_write filename w =
     (case open_error w filename CHR ''w'' of
        Some e \<Rightarrow> Inl e
      | None \<Rightarrow> Inr ((opened filename CHR ''w'' w)\<lparr>files := (files w)(filename \<mapsto> [])\<rparr>))"

text \<open>
  \<open>load_from_csv\<close>. The collection is created before the \<open>try\<close> block and returned
  after it, whatever happened inside. An exception of \<open>open\<close>, of the loop body or of
  the reader leaves the block: \<open>FileNotFoundError\<close> is reported by the first handler, any
  other exception by the second. A file that was opened is read to its end; its text is
  valid UTF-8. The limits that the interpreter can be configured with (on the number of
  digits of an integer that is converted from or to a string, and on the size of a
  field of a csv file) are taken to be switched off.
\<close>

definition load_from_csv :: "string \<Rightarrow> world \<Rightarrow> ref \<times> world" where
  "load_from_csv filename w =
     (case MedicalRecordsCollection_init w of (collection, w1) \<Rightarrow>
       (case open_read filename w1 of
          Inl e \<Rightarrow>
            (case e of
               FileNotFoundError f \<Rightarrow> (collection, print (FileNotFound filename) w1)
             | _ \<Rightarrow> (collection, print (LoadError e) w1))
        | Inr (text, w_open) \<Rightarrow>
            (case DictReader (csv_reader (universal_newlines text)) of (rows, reader_exn) \<Rightarrow>
              (case load_loop collection rows w_open of (w2, body_exn) \<Rightarrow>
                (case body_exn of
                   Some e \<Rightarrow> (collection, print (LoadError e) w2)
                 | None \<Rightarrow>
                    (case reader_exn of
                       Some e \<Rightarrow> (collection, print (LoadError e) w2)
                     | None \<Rightarrow> (collection, print (Loaded (len w2 collection) filename) w2)))))))"

text \<open>
  \<open>save_to_csv\<close>. An empty collection is falsy, and nothing is opened. Otherwise
  opening for writing truncates the file (with \<open>newline=''\<close> what is written is stored
  as it is) and every \<open>writerow\<close> appends a line; an exception of \<open>open\<close> is reported
  by the handler. A file that was opened is written to its end.
\<close>

definition fieldnames :: "string list" where
  "fieldnames = [''id'', ''patient_name'', ''doctor_name'', ''reason'', ''duration'', ''date'', ''urgency'']"

definition file_write :: "string \<Rightarrow> string \<Rightarrow> world \<Rightarrow> world" where
  "file_write filename s w =
     w\<lparr>files := (files w)(filename \<mapsto> (case files w filename of None \<Rightarrow> [] | Some t \<Rightarrow> t) @ s)\<rparr>"

definition row_of_record :: "medical_record \<Rightarrow> (string \<times> pyval) list" where
  "row_of_record record =
     [(''id'', PInt (id_r record)),
      (''patient_name'', text_val (patient_name record)),
      (''doctor_name'', text_val (doctor_name record)),
      (''reason'', text_val (reason record)),
      (''duration'', PInt (duration record)),
      (''date'', PStr (date record)),
      (''urgency'', PInt (getattr_urgency record 0))]"

fun save_loop :: "string \<Rightarrow> medical_record list \<Rightarrow> world \<Rightarrow> world" where
  "save_loop filename [] w = w"
| "save_loop filename (record # rest) w =
     save_loop filename rest (file_write filename (DictWriter_writerow fieldnames (row_of_record record)) w)"

definition save_to_csv :: "ref \<Rightarrow> string \<Rightarrow> world \<Rightarrow> world" where
  "save_to_csv collection filename w =
     (if len w collection = 0 then print NoDataToSave w
      else
        (case open_write filename w of
           Inl e \<Rightarrow> print (SaveError e) w
         | Inr w1 \<Rightarrow>
             (let w2 = file_write filename (DictWriter_writeheader fieldnames) w1;
                  w3 = save_loop filename (records w2 collection) w2
              in print (Saved (len w3 collection) filename) w3)))"

section \<open>A saved collection, and what is read from it\<close>



text \<open>
  The record that \<open>load_from_csv\<close> builds from the row written for a record. A text field
  comes back as a string, the empty one when it was \<open>None\<close>; reading the file translates
  every carriage return of a field, with the line feed that may follow it, to one line
  feed; the class of the record follows the urgency that was written.
\<close>

definition reloaded_text :: "string option \<Rightarrow> string option" where
  "reloaded_text t = Some (universal_newlines (field_text (text_val t)))"

definition reloaded :: "string \<Rightarrow> medical_record \<Rightarrow> medical_record" where
  "reloaded tod r =
     (if getattr_urgency r 0 > 0
      then EmergencyRecord (id_r r) (reloaded_text (patient_name r)) (reloaded_text (doctor_name r))
             (reloaded_text (reason r)) (duration r) (getattr_urgency r 0)
             (date_or_today tod (Some (universal_newlines (date r))))
      else MedicalRecord (id_r r) (reloaded_text (patient_name r)) (reloaded_text (doctor_name r))
             (reloaded_text (reason r)) (duration r)
             (date_or_today tod (Some (universal_newlines (date r)))))"

section \<open>Example data\<close>

text \<open>
  The example of the specification: a visit (id 1, 15 minutes) and an emergency visit
  (id 2, 30 minutes, urgency 1), in a collection that is the only object of the heap.
\<close>

definition rec1 :: medical_record where
  "rec1 = MedicalRecord 1 (Some ''Ivanov'') (Some ''Petrov'') (Some ''flu'') 15 ''2024-01-01''"

definition rec2 :: medical_record where
  "rec2 = EmergencyRecord 2 (Some ''Abramov'') (Some ''Sidorov'') (Some ''injury'') 30 1 ''2024-01-02''"

definition w0 :: world where
  "w0 = \<lparr>heap = [[rec1, rec2]], files = Map.empty, open_error = (\<lambda>filename mode. None),
          events = [], today = ''2024-01-03''\<rparr>"

text \<open>
  A third visit, with the patient and the duration of the first, and a collection in
  which neither the durations nor the names are in order.
\<close>

definition rec3 :: medical_record where
  "rec3 = MedicalRecord 3 (Some ''Ivanov'') (Some ''Petrov'') (Some ''cough'') 15 ''2024-01-04''"

definition w_ties :: world where
  "w_ties = w0\<lparr>heap := [[rec1, rec2, rec3]]\<rparr>"

text \<open>
  A file whose header has the columns in another order and no column \<open>urgency\<close> or
  \<open>date\<close>, and whose second row stops after the duration.
\<close>

definition short_row_csv :: string where
  "short_row_csv = ''id,duration,patient_name,doctor_name,reason'' @ [LF]
     @ ''1,15,Ivanov,Petrov,flu'' @ [LF] @ ''2,20'' @ [LF]"

definition w_short :: world where
  "w_short = w0\<lparr>heap := [], files := [''short.csv'' \<mapsto> short_row_csv]\<rparr>"

text \<open>A world whose only collection is empty and in which a file exists.\<close>

definition w_empty :: world where
  "w_empty = w0\<lparr>heap := [[]], files := [''out.csv'' \<mapsto> ''old text'']\<rparr>"






section \<open>Properties of the collection operations\<close>

lemma get_emergency_records_loop_eq:
  "get_emergency_records_loop xs ys = ys @ filter isinstance_EmergencyRecord xs"
  by (induction xs arbitrary: ys) auto

lemma get_records_by_doctor_loop_eq:
  "get_records_by_doctor_loop name xs ys = ys @ filter (\<lambda>r. doctor_name r = Some name) xs"
  by (induction xs arbitrary: ys) auto

lemma records_w0: "records w0 0 = [rec1, rec2]"
  by (simp add: records_def w0_def)

text \<open>
  C3. \<open>filter_by_duration(N)\<close> returns a new collection (an object that did not exist
  before) whose records are exactly the records of the original with a duration
  strictly greater than \<open>N\<close>, in their original order; every collection that existed
  before the call, the original among them, has the records it had.
\<close>

theorem filter_by_duration_correct:
  assumes "self < length (heap w)" and "filter_by_duration self n w = (new, w')"
  shows "new = length (heap w) \<and> length (heap w') = Suc (length (heap w))
       \<and> records w' new = filter (\<lambda>r. n < duration r) (records w self)
       \<and> set (records w' new) = {r \<in> set (records w self). n < duration r}
       \<and> subseq (records w' new) (records w self)
       \<and> (\<forall>c < length (heap w). records w' c = records w c)
       \<and> files w' = files w \<and> events w' = events w"
  using assms
  by (auto simp: filter_by_duration_def MedicalRecordsCollection_init_def set_records_def
      records_def nth_append)

theorem filter_by_duration_correct_witness:
  "filter_by_duration 0 20 w0 = (1, w0\<lparr>heap := [[rec1, rec2], [rec2]]\<rparr>)
   \<and> records (w0\<lparr>heap := [[rec1, rec2], [rec2]]\<rparr>) 1 = filter (\<lambda>r. 20 < duration r) (records w0 0)
   \<and> records (w0\<lparr>heap := [[rec1, rec2], [rec2]]\<rparr>) 0 = [rec1, rec2]"
proof -
  have a: "0 < length (heap w0)" by (simp add: w0_def)
  have b: "filter_by_duration 0 20 w0 = (1, w0\<lparr>heap := [[rec1, rec2], [rec2]]\<rparr>)"
    by (simp add: filter_by_duration_def MedicalRecordsCollection_init_def set_records_def
        records_def w0_def rec1_def rec2_def)
  have c: "records (w0\<lparr>heap := [[rec1, rec2], [rec2]]\<rparr>) 1
             = filter (\<lambda>r. 20 < duration r) (records w0 0)
           \<and> records (w0\<lparr>heap := [[rec1, rec2], [rec2]]\<rparr>) 0 = [rec1, rec2]"
    by (simp add: records_def w0_def rec1_def rec2_def)
  from filter_by_duration_correct [OF a b] b c show ?thesis
    by simp
qed

text \<open>
  C4. \<open>sort_by_duration()\<close>, on every collection, and \<open>sort_by_patient_name()\<close>, on
  every collection whose records all have a string as patient name, return a new
  collection that is a stable sort of the records by duration, respectively by patient
  name: it is a permutation of the original, ordered by the key, and the records with
  any one key are in their original order; every collection that existed before, the
  original among them, has the records it had.
\<close>

theorem sort_stable_nondestructive:
  assumes "self < length (heap w)"
  shows "(case sort_by_duration self w of (new, w') \<Rightarrow>
            new = length (heap w)
          \<and> mset (records w' new) = mset (records w self)
          \<and> sorted (map duration (records w' new))
          \<and> (\<forall>k. filter (\<lambda>r. duration r = k) (records w' new)
                   = filter (\<lambda>r. duration r = k) (records w self))
          \<and> (\<forall>c < length (heap w). records w' c = records w c))
       \<and> ((\<forall>r \<in> set (records w self). patient_name r \<noteq> None) \<longrightarrow>
          (case sort_by_patient_name self w of (res, w') \<Rightarrow>
            res = Inr (length (heap w))
          \<and> mset (records w' (length (heap w))) = mset (records w self)
          \<and> sorted (map (\<lambda>r. the (patient_name r)) (records w' (length (heap w))))
          \<and> (\<forall>k. filter (\<lambda>r. patient_name r = k) (records w' (length (heap w)))
                   = filter (\<lambda>r. patient_name r = k) (records w self))
          \<and> (\<forall>c < length (heap w). records w' c = records w c)))"
proof -
  have stable: "filter (\<lambda>r. patient_name r = k) (sort_key (\<lambda>x. the (patient_name x)) xs)
                  = filter (\<lambda>r. patient_name r = k) xs"
    if "\<forall>r \<in> set xs. patient_name r \<noteq> None" for k xs
  proof (cases k)
    case None
    with that show ?thesis by (simp add: filter_empty_conv [THEN iffD2])
  next
    case (Some s)
    have A: "filter (\<lambda>r. patient_name r = Some s) ys = filter (\<lambda>r. the (patient_name r) = s) ys"
      if "\<forall>r \<in> set ys. patient_name r \<noteq> None" for ys
      using that by (intro filter_cong) auto
    have "filter (\<lambda>r. patient_name r = Some s) (sort_key (\<lambda>x. the (patient_name x)) xs)
        = filter (\<lambda>r. the (patient_name r) = s) (sort_key (\<lambda>x. the (patient_name x)) xs)"
      using that by (intro A) simp
    also have "\<dots> = filter (\<lambda>r. the (patient_name r) = s) xs"
      by (rule sort_key_stable)
    also have "\<dots> = filter (\<lambda>r. patient_name r = Some s) xs"
      using that by (simp add: A)
    finally show ?thesis using Some by simp
  qed
  have dur: "(case sort_by_duration self w of (new, w') \<Rightarrow>
            new = length (heap w)
          \<and> mset (records w' new) = mset (records w self)
          \<and> sorted (map duration (records w' new))
          \<and> (\<forall>k. filter (\<lambda>r. duration r = k) (records w' new)
                   = filter (\<lambda>r. duration r = k) (records w self))
          \<and> (\<forall>c < length (heap w). records w' c = records w c))"
    using assms
    by (simp add: sort_by_duration_def MedicalRecordsCollection_init_def set_records_def
        records_def nth_append sort_key_stable)
  have name: "(case sort_by_patient_name self w of (res, w') \<Rightarrow>
            res = Inr (length (heap w))
          \<and> mset (records w' (length (heap w))) = mset (records w self)
          \<and> sorted (map (\<lambda>r. the (patient_name r)) (records w' (length (heap w))))
          \<and> (\<forall>k. filter (\<lambda>r. patient_name r = k) (records w' (length (heap w)))
                   = filter (\<lambda>r. patient_name r = k) (records w self))
          \<and> (\<forall>c < length (heap w). records w' c = records w c))"
    if n: "\<forall>r \<in> set (records w self). patient_name r \<noteq> None"
  proof -
    have "sorted_by_text patient_name (heap w ! self)
            = Inr (sort_key (\<lambda>x. the (patient_name x)) (heap w ! self))"
      using n by (auto simp: sorted_by_text_def records_def)
    then show ?thesis
      using assms stable [of "heap w ! self"] n sorted_sort_key [of "\<lambda>x. the (patient_name x)"]
      by (simp add: sort_by_patient_name_def MedicalRecordsCollection_init_def set_records_def
          records_def nth_append)
  qed
  from dur name show ?thesis by blast
qed

theorem sort_stable_nondestructive_witness:
  "sort_by_duration 0 w_ties = (1, w_ties\<lparr>heap := [[rec1, rec2, rec3], [rec1, rec3, rec2]]\<rparr>)
   \<and> sort_by_patient_name 0 w_ties = (Inr 1, w_ties\<lparr>heap := [[rec1, rec2, rec3], [rec2, rec1, rec3]]\<rparr>)
   \<and> sorted (map duration [rec1, rec3, rec2])
   \<and> filter (\<lambda>r. duration r = 15) [rec1, rec3, rec2] = filter (\<lambda>r. duration r = 15) [rec1, rec2, rec3]
   \<and> sorted (map (\<lambda>r. the (patient_name r)) [rec2, rec1, rec3])
   \<and> filter (\<lambda>r. patient_name r = Some ''Ivanov'') [rec2, rec1, rec3]
       = filter (\<lambda>r. patient_name r = Some ''Ivanov'') [rec1, rec2, rec3]"
proof -
  have a: "0 < length (heap w_ties)" by (simp add: w_ties_def)
  have r: "records w_ties 0 = [rec1, rec2, rec3]"
    by (simp add: records_def w_ties_def)
  have n: "\<forall>r \<in> set (records w_ties 0). patient_name r \<noteq> None"
    by (simp add: r rec1_def rec2_def rec3_def)
  have d: "sort_by_duration 0 w_ties = (1, w_ties\<lparr>heap := [[rec1, rec2, rec3], [rec1, rec3, rec2]]\<rparr>)"
    by (simp add: sort_by_duration_def MedicalRecordsCollection_init_def set_records_def
        records_def w_ties_def rec1_def rec2_def rec3_def)
  have lt: "''Abramov'' < ''Ivanov''"
    by (simp add: less_char_def)
  have p: "sort_by_patient_name 0 w_ties
             = (Inr 1, w_ties\<lparr>heap := [[rec1, rec2, rec3], [rec2, rec1, rec3]]\<rparr>)"
    using lt
    by (simp add: sort_by_patient_name_def sorted_by_text_def MedicalRecordsCollection_init_def
        set_records_def records_def w_ties_def rec1_def rec2_def rec3_def not_le [symmetric])
  from sort_stable_nondestructive [OF a] n d p r show ?thesis
    by (simp add: records_def w_ties_def)
qed

text \<open>
  The condition on the names cannot be dropped. \<open>load_from_csv\<close> stores \<open>None\<close> as the
  patient name of a row that ends before the column of the name; the file above is
  loaded as a collection of two records, the second without a name, and
  \<open>sort_by_patient_name()\<close> on it raises \<open>TypeError\<close> and returns no collection.
\<close>

theorem sort_by_patient_name_raises:
  "(case load_from_csv ''short.csv'' w_short of (c, w) \<Rightarrow>
      c < length (heap w)
    \<and> records w c = [MedicalRecord 1 (Some ''Ivanov'') (Some ''Petrov'') (Some ''flu'') 15 ''2024-01-03'',
                      MedicalRecord 2 None None None 20 ''2024-01-03'']
    \<and> fst (sort_by_patient_name c w) = Inl TypeError)"
  unfolding w_short_def w0_def by code_simp

text \<open>
  C8. \<open>get_records_by_doctor(name)\<close> yields exactly the records whose doctor name is the
  given string, and \<open>get_emergency_records()\<close> exactly the emergency records, both in the
  order of the collection; the sequence depends on the records of the collection only,
  so invoking the operation again on the same records yields the same sequence.
\<close>

theorem generators_correct:
  "get_records_by_doctor w self name = filter (\<lambda>r. doctor_name r = Some name) (records w self)
   \<and> get_emergency_records w self = filter isinstance_EmergencyRecord (records w self)
   \<and> subseq (get_records_by_doctor w self name) (records w self)
   \<and> subseq (get_emergency_records w self) (records w self)
   \<and> (\<forall>w'. records w' self = records w self \<longrightarrow>
         get_records_by_doctor w' self name = get_records_by_doctor w self name
       \<and> get_emergency_records w' self = get_emergency_records w self)"
  by (simp add: get_records_by_doctor_def get_emergency_records_def
      get_emergency_records_loop_eq get_records_by_doctor_loop_eq)

theorem generators_correct_witness:
  "get_records_by_doctor w0 0 ''Petrov'' = [rec1] \<and> get_emergency_records w0 0 = [rec2]
   \<and> get_emergency_records (print NoDataToSave w0) 0 = [rec2]"
proof -
  have "records (print NoDataToSave w0) 0 = records w0 0"
    by (simp add: records_def print_def)
  with generators_correct [of w0 0 "''Petrov''"] show ?thesis
    by (simp add: records_w0 rec1_def rec2_def)
qed

text \<open>
  C10. Indexing the collection with an index \<open>i\<close>, \<open>0 \<le> i < len\<close>, returns the record at
  position \<open>i\<close>; with an index \<open>i \<ge> len\<close> it raises \<open>IndexError\<close> and returns nothing.
\<close>

theorem getitem_correct:
  "(\<forall>i. 0 \<le> i \<and> i < int (len w self) \<longrightarrow> getitem w self i = Inr (records w self ! nat i))
   \<and> (\<forall>i. int (len w self) \<le> i \<longrightarrow> getitem w self i = Inl IndexError)"
  by (auto simp: getitem_def Let_def)

theorem getitem_correct_witness:
  "len w0 0 = 2 \<and> getitem w0 0 1 = Inr rec2 \<and> getitem w0 0 2 = Inl IndexError"
proof -
  have l: "len w0 0 = 2" by (simp add: len_def records_w0)
  from getitem_correct [of w0 0] have
    "getitem w0 0 1 = Inr (records w0 0 ! nat 1)" "getitem w0 0 2 = Inl IndexError"
    by (simp_all add: l)
  with l show ?thesis by (simp add: records_w0)
qed

text \<open>
  C7. The urgency label an emergency record is displayed with depends on its urgency
  only: the label for critical when the urgency is 1, for high when it is 2, for medium
  when it is 3, and the label for unknown for every other integer; the displayed string
  is the display of the base fields followed by the separator and that label.
\<close>

theorem urgency_label:
  "isinstance_EmergencyRecord r \<Longrightarrow>
     urgency_str r = (if urgency r = 1 then label_critical else if urgency r = 2 then label_high
                      else if urgency r = 3 then label_medium else label_unknown)
     \<and> (\<forall>base. MedicalRecord_str r = Inr base \<longrightarrow>
           str_record r = Inr (base @ urgency_sep @ urgency_str r))"
  by (auto simp: urgency_str_def URGENCY_LEVELS_def str_record_def EmergencyRecord_str_def)

theorem urgency_label_witness:
  "isinstance_EmergencyRecord rec2 \<and> urgency_str rec2 = label_critical
   \<and> MedicalRecord_str rec2 = Inr (''  2 | Abramov              | Sidorov         | injury               |   30'' @ min_sep @ ''2024-01-02'')
   \<and> str_record rec2 = Inr ((''  2 | Abramov              | Sidorov         | injury               |   30'' @ min_sep @ ''2024-01-02'') @ urgency_sep @ label_critical)"
proof -
  have e: "isinstance_EmergencyRecord rec2" by (simp add: rec2_def)
  have u: "urgency rec2 = 1" by (simp add: rec2_def)
  have m: "MedicalRecord_str rec2 = Inr (''  2 | Abramov              | Sidorov         | injury               |   30'' @ min_sep @ ''2024-01-02'')"
    unfolding rec2_def MedicalRecord_str_def format_str_def format_int_def str_int_def
      cp_length_def
    by code_simp
  from urgency_label [OF e] u m e show ?thesis by simp
qed

section \<open>Properties of loading and saving\<close>

lemma today_add [simp]: "today (add c r w) = today w"
  by (simp add: add_def set_records_def)

lemma set_records_twice [simp]: "set_records c rs (set_records c rs' w) = set_records c rs w"
  by (simp add: set_records_def)

lemma records_set_records [simp]:
  "c < length (heap w) \<Longrightarrow> records (set_records c rs w) c = rs"
  by (simp add: set_records_def records_def)

lemma heap_length_set_records [simp]: "length (heap (set_records c rs w)) = length (heap w)"
  by (simp add: set_records_def)

lemma today_set_records [simp]: "today (set_records c rs w) = today w"
  by (simp add: set_records_def)



lemma events_set_records [simp]: "events (set_records c rs w) = events w"
  by (simp add: set_records_def)

lemma files_set_records [simp]: "files (set_records c rs w) = files w"
  by (simp add: set_records_def)

lemma records_set_records_other [simp]:
  "c' \<noteq> c \<Longrightarrow> records (set_records c rs w) c' = records w c'"
  by (simp add: set_records_def records_def)

lemma records_print [simp]: "records (print m w) c = records w c"
  by (simp add: print_def records_def)

lemma records_opened [simp]: "records (opened f m w) c = records w c"
  by (simp add: opened_def records_def)

lemma init_props:
  "MedicalRecordsCollection_init w = (length (heap w), w\<lparr>heap := heap w @ [[]]\<rparr>)"
  by (simp add: MedicalRecordsCollection_init_def)

lemma records_init_new [simp]: "records (w\<lparr>heap := heap w @ [[]]\<rparr>) (length (heap w)) = []"
  by (simp add: records_def)

lemma records_init_old [simp]:
  "c < length (heap w) \<Longrightarrow> records (w\<lparr>heap := heap w @ [[]]\<rparr>) c = records w c"
  by (simp add: records_def nth_append)

text \<open>
  C5. \<open>load_from_csv\<close> with the path of a file that does not exist returns a new
  collection that is empty (its length is 0) and prints one diagnostic message, the one
  for a missing file unless the operating system refuses the path for another reason;
  it raises nothing, and the collections and files that existed are as they were.
\<close>

theorem load_missing_file:
  assumes "files w filename = None"
  shows "(case load_from_csv filename w of (c, w') \<Rightarrow>
            c = length (heap w) \<and> length (heap w') = Suc (length (heap w))
          \<and> len w' c = 0 \<and> records w' c = []
          \<and> (\<forall>c' < length (heap w). records w' c' = records w c')
          \<and> files w' = files w
          \<and> events w' = events w @
               [Print (case open_error w filename CHR ''r'' of
                         None \<Rightarrow> FileNotFound filename
                       | Some (FileNotFoundError f) \<Rightarrow> FileNotFound filename
                       | Some e \<Rightarrow> LoadError e)])"
  using assms
  by (auto simp: load_from_csv_def init_props open_read_def len_def print_def records_def
      nth_append split: option.splits exn.splits)

theorem load_missing_file_witness:
  "files w0 ''missing.csv'' = None
   \<and> load_from_csv ''missing.csv'' w0
       = (1, w0\<lparr>heap := [[rec1, rec2], []], events := [Print (FileNotFound ''missing.csv'')]\<rparr>)
   \<and> len (w0\<lparr>heap := [[rec1, rec2], []], events := [Print (FileNotFound ''missing.csv'')]\<rparr>) 1 = 0"
proof -
  have a: "files w0 ''missing.csv'' = None" by (simp add: w0_def)
  have b: "load_from_csv ''missing.csv'' w0
       = (1, w0\<lparr>heap := [[rec1, rec2], []], events := [Print (FileNotFound ''missing.csv'')]\<rparr>)"
    by (simp add: load_from_csv_def init_props open_read_def print_def w0_def)
  have c: "len (w0\<lparr>heap := [[rec1, rec2], []], events := [Print (FileNotFound ''missing.csv'')]\<rparr>) 1 = 0"
    by (simp add: len_def records_def)
  from load_missing_file [OF a] a b c show ?thesis by simp
qed

text \<open>
  C6. \<open>save_to_csv\<close> on a collection of length 0 only prints the message that there is
  nothing to save: no file is opened, created or changed, and an existing file keeps
  its content.
\<close>

theorem save_empty_noop:
  assumes "len w collection = 0"
  shows "save_to_csv collection filename w = print NoDataToSave w
       \<and> files (save_to_csv collection filename w) = files w
       \<and> heap (save_to_csv collection filename w) = heap w
       \<and> events (save_to_csv collection filename w) = events w @ [Print NoDataToSave]
       \<and> (\<forall>f m. Opened f m \<in> set (events (save_to_csv collection filename w))
                  \<longrightarrow> Opened f m \<in> set (events w))"
  using assms by (simp add: save_to_csv_def print_def)

theorem save_empty_noop_witness:
  "len w_empty 0 = 0
   \<and> save_to_csv 0 ''out.csv'' w_empty = w_empty\<lparr>events := [Print NoDataToSave]\<rparr>
   \<and> files (save_to_csv 0 ''out.csv'' w_empty) ''out.csv'' = Some ''old text''"
proof -
  have a: "len w_empty 0 = 0" by (simp add: len_def records_def w_empty_def)
  from save_empty_noop [OF a, of "''out.csv''"] a show ?thesis
    by (simp add: print_def w_empty_def w0_def)
qed

text \<open>
  The rows on which the loop body raises: the id or the duration is missing or is not
  an integer, the urgency is there and is not an integer (it is \<open>None\<close> in a row that
  ends before its column), or the header lacks one of the three text columns.
\<close>

lemma row_to_record_raises_iff:
  "isl (row_to_record tod r) \<longleftrightarrow>
     (case dict_get r ''id'' of None \<Rightarrow> True | Some v \<Rightarrow> isl (int_cell v))
   \<or> (case dict_get r ''duration'' of None \<Rightarrow> True | Some v \<Rightarrow> isl (int_cell v))
   \<or> (case dict_get r ''urgency'' of None \<Rightarrow> False | Some v \<Rightarrow> isl (int_cell v))
   \<or> dict_get r ''patient_name'' = None
   \<or> dict_get r ''doctor_name'' = None
   \<or> dict_get r ''reason'' = None"
  by (auto simp: row_to_record_def bind_exn_def row_getitem_def split: option.splits sum.splits)




section \<open>The round trip through a file\<close>

subsection \<open>Translation of the line ends of what the writer wrote\<close>




lemma CR_notin_un: "CR \<notin> set (universal_newlines f)"
  by (induction f rule: universal_newlines.induct) (auto simp: CR_def LF_def)





subsection \<open>The reader on the lines of a written file\<close>

lemma specials_distinct [simp]:
  "LF \<noteq> CHR 0x22" "LF \<noteq> CHR '',''" "CR \<noteq> CHR 0x22" "CR \<noteq> CHR '',''" "LF \<noteq> CR"
  "CHR 0x22 \<noteq> LF" "CHR '','' \<noteq> LF" "CHR 0x22 \<noteq> CR" "CHR '','' \<noteq> CR" "CR \<noteq> LF"
  by (simp_all add: CR_def LF_def)















subsection \<open>\<open>int\<close> of \<open>str\<close> of an integer\<close>





















subsection \<open>Saving, then loading\<close>












lemma reloaded_sel [simp]:
  "id_r (reloaded tod r) = id_r r"
  "duration (reloaded tod r) = duration r"
  "patient_name (reloaded tod r) = reloaded_text (patient_name r)"
  "doctor_name (reloaded tod r) = reloaded_text (doctor_name r)"
  "reason (reloaded tod r) = reloaded_text (reason r)"
  "date (reloaded tod r) = date_or_today tod (Some (universal_newlines (date r)))"
  "isinstance_EmergencyRecord (reloaded tod r) = (0 < getattr_urgency r 0)"
  "getattr_urgency (reloaded tod r) 0 = (if 0 < getattr_urgency r 0 then getattr_urgency r 0 else 0)"
  by (simp_all add: reloaded_def)









text \<open>
  The conditions on the text fields cannot be dropped either: a patient name that is
  \<open>None\<close> is loaded as the empty string, and a carriage return in a reason as a line
  feed.
\<close>

lemma roundtrip_carriage_return:
  "(case load_from_csv ''out.csv'' (save_to_csv 0 ''out.csv''
       (w0\<lparr>heap := [[MedicalRecord 6 None (Some ''Petrov'') (Some [CHR ''a'', CR, CHR ''b'']) 5 ''2024-01-07'']]\<rparr>))
    of (c', w') \<Rightarrow>
      records w' c' = [MedicalRecord 6 (Some []) (Some ''Petrov'') (Some [CHR ''a'', LF, CHR ''b'']) 5 ''2024-01-07''])"
  unfolding w0_def by code_simp

end
